theory Spec2Isabelle
  imports Main "HOL-Library.Word"
begin

section \<open>The node commands of the headscale command line (cmd/headscale/cli/nodes.go)\<close>

subsection \<open>Values of the Go runtime and of the libraries the file calls\<close>

text \<open>
  A Go \<^verbatim>\<open>error\<close> value: the text of \<^verbatim>\<open>err.Error()\<close> and the message that
  \<^verbatim>\<open>status.Convert(err).Message()\<close> extracts from it.
\<close>

datatype error = GoError (errText: string) (statusMessage: string)

text \<open>
  What a Go function of result type \<^verbatim>\<open>(T, error)\<close> can do: return a value with a nil
  error, return a non-nil error, or panic.
\<close>

datatype 'a outcome = Returned (val: 'a) | ReturnedErr error | Panicked

text \<open>
  \<^verbatim>\<open>time.Time\<close>: an instant, in nanoseconds relative to the Unix epoch. The zero value of
  the type is January 1 of year 1, 00:00:00 UTC, which is 62135596800 seconds before
  the epoch. \<^verbatim>\<open>time.Duration\<close> is a number of nanoseconds.
\<close>

type_synonym time = int

definition zeroTime :: time where
  "zeroTime = - 62135596800 * 1000000000"

definition Minute :: int where
  "Minute = 60 * 1000000000"

definition IsZero :: "time \<Rightarrow> bool" where
  "IsZero t = (t = zeroTime)"

definition After :: "time \<Rightarrow> time \<Rightarrow> bool" where
  "After t u = (u < t)"

definition Add :: "time \<Rightarrow> int \<Rightarrow> time" where
  "Add t d = t + d"

text \<open>A protobuf timestamp and its conversion \<^verbatim>\<open>AsTime\<close>.\<close>

record Timestamp =
  seconds :: int
  nanos :: int

definition AsTime :: "Timestamp \<Rightarrow> time" where
  "AsTime ts = seconds ts * 1000000000 + nanos ts"

text \<open>\<^verbatim>\<open>netaddr.IP\<close>: an address is of one family; the zone of an IPv6 address is omitted.\<close>

datatype IP = IPv4 "32 word" | IPv6 "128 word"

fun Is4 :: "IP \<Rightarrow> bool" where
  "Is4 (IPv4 _) = True"
| "Is4 (IPv6 _) = False"

text \<open>
  The functions of other packages that \<^verbatim>\<open>nodesToPtables\<close> calls, taken as parameters:
  \<^item> \<^verbatim>\<open>headscale.NodePublicKeyEnsurePrefix\<close>, \<^verbatim>\<open>key.NodePublic.UnmarshalText\<close> (an error
    when the text does not decode) and \<^verbatim>\<open>ShortString\<close>, a decoded key being kept as
    the string of its bytes;
  \<^item> \<^verbatim>\<open>netaddr.MustParseIP\<close>, \<^verbatim>\<open>None\<close> where it panics;
  \<^item> \<^verbatim>\<open>time.Time.Format\<close> with the layout \<^verbatim>\<open>2006-01-02 15:04:05\<close>;
  \<^item> the four colouring functions of pterm.
\<close>

record ext =
  NodePublicKeyEnsurePrefix :: "string \<Rightarrow> string"
  UnmarshalText :: "string \<Rightarrow> error + string"
  ShortString :: "string \<Rightarrow> string"
  MustParseIP :: "string \<Rightarrow> IP option"
  Format :: "time \<Rightarrow> string"
  LightGreen :: "string \<Rightarrow> string"
  LightRed :: "string \<Rightarrow> string"
  LightMagenta :: "string \<Rightarrow> string"
  LightYellow :: "string \<Rightarrow> string"

text \<open>\<^verbatim>\<open>strings.Join\<close>, \<^verbatim>\<open>strconv.FormatBool\<close> and \<^verbatim>\<open>strconv.FormatUint\<close> in base 10.\<close>

fun Join :: "string list \<Rightarrow> string \<Rightarrow> string" where
  "Join [] sep = []"
| "Join [s] sep = s"
| "Join (s # t # rest) sep = s @ sep @ Join (t # rest) sep"

definition FormatBool :: "bool \<Rightarrow> string" where
  "FormatBool b = (if b then ''true'' else ''false'')"

definition digit :: "nat \<Rightarrow> char" where
  "digit d = ''0123456789'' ! d"

fun FormatUint10 :: "nat \<Rightarrow> string" where
  "FormatUint10 n = (if n < 10 then [digit n] else FormatUint10 (n div 10) @ [digit (n mod 10)])"

text \<open>
  Reading a Go \<^verbatim>\<open>map[string]string\<close> literal at a key: the value stored there, the
  empty string when the key is not in the map.
\<close>

definition index :: "(string \<times> string) list \<Rightarrow> string \<Rightarrow> string" where
  "index m k = (case map_of m k of None \<Rightarrow> [] | Some v \<Rightarrow> v)"

subsection \<open>The node record received from the server\<close>

record v1_PreAuthKey =
  Ephemeral :: bool

record v1_Namespace =
  Name_ns :: string

record v1_Machine =
  Id_m :: "64 word"
  Name :: string
  NodeKey :: string
  Namespace :: "v1_Namespace option"
  IpAddresses :: "string list"
  PreAuthKey :: "v1_PreAuthKey option"
  LastSeen :: "Timestamp option"
  Expiry :: "Timestamp option"
  RequestTags :: "string list"
  RequestedRoutes :: "string list"
  EnabledRoutes :: "string list"

subsection \<open>The column tables\<close>

definition availableColumns :: "(string \<times> string) list" where
  "availableColumns =
     [(''id'', ''ID''),
      (''name'', ''Names''),
      (''nodekey'', ''NodeKey''),
      (''namespace'', ''Namespace''),
      (''ip_addresses'', ''IP addresses''),
      (''ephemeral'', ''Ephemeral''),
      (''last_seen'', ''Last seen''),
      (''online'', ''Online''),
      (''expired'', ''Expired''),
      (''tags'', ''Tags''),
      (''routes'', ''Routes'')]"

definition defaultColumns :: "string list" where
  "defaultColumns =
     [''id'', ''name'', ''nodekey'', ''namespace'', ''ip_addresses'', ''ephemeral'',
      ''last_seen'', ''online'', ''expired'']"

subsection \<open>nodesToPtables\<close>

text \<open>
  Modelled from the spec: \<^verbatim>\<open>isStringInSlice\<close>, a helper of the package that is defined
  outside nodes.go. The specification has a route approved iff it is present in the
  enabled routes, so the helper is membership of the string in the slice.
\<close>

definition isStringInSlice :: "string list \<Rightarrow> string \<Rightarrow> bool" where
  "isStringInSlice strs s = (s \<in> set strs)"

text \<open>Lines 430-440: the header, one label appended for each column.\<close>

definition tableHeader :: "string list \<Rightarrow> string list" where
  "tableHeader withColumns =
     (if length withColumns > 0
      then foldl (\<lambda>header column. header @ [index availableColumns column]) [] withColumns
      else foldl (\<lambda>header column. header @ [index availableColumns column]) [] defaultColumns)"

text \<open>Lines 445-448.\<close>

definition ephemeral :: "v1_Machine \<Rightarrow> bool" where
  "ephemeral machine =
     (case PreAuthKey machine of None \<Rightarrow> False | Some k \<Rightarrow> Ephemeral k)"

text \<open>
  Lines 450-460: \<^verbatim>\<open>lastSeen\<close> and \<^verbatim>\<open>expiry\<close> are declared with the zero value of
  \<^verbatim>\<open>time.Time\<close> and assigned only when the field of the record is present.
\<close>

definition timeOf :: "Timestamp option \<Rightarrow> time" where
  "timeOf field = (case field of None \<Rightarrow> zeroTime | Some ts \<Rightarrow> AsTime ts)"

definition lastSeenTime :: "ext \<Rightarrow> Timestamp option \<Rightarrow> string" where
  "lastSeenTime x field = (case field of None \<Rightarrow> [] | Some ts \<Rightarrow> Format x (AsTime ts))"

text \<open>Lines 470-477, \<^verbatim>\<open>now\<close> being what \<^verbatim>\<open>time.Now()\<close> returns there.\<close>

definition online :: "ext \<Rightarrow> time \<Rightarrow> time \<Rightarrow> string" where
  "online x lastSeen now =
     (if After lastSeen (Add now (- 5 * Minute))
      then LightGreen x ''online''
      else LightRed x ''offline'')"

text \<open>Lines 479-484.\<close>

definition expired :: "ext \<Rightarrow> time \<Rightarrow> time \<Rightarrow> string" where
  "expired x expiry now =
     (if IsZero expiry \<or> After expiry now
      then LightGreen x ''no''
      else LightRed x ''yes'')"

text \<open>Lines 486-492, for a record whose namespace is present.\<close>

definition namespace_cell :: "ext \<Rightarrow> string \<Rightarrow> v1_Namespace \<Rightarrow> string" where
  "namespace_cell x currentNamespace ns =
     (if currentNamespace = [] \<or> currentNamespace = Name_ns ns
      then LightMagenta x (Name_ns ns)
      else LightYellow x (Name_ns ns))"

text \<open>
  Lines 494-502: the loop over the addresses, on the pair of \<^verbatim>\<open>IpV4Address\<close> and
  \<^verbatim>\<open>IpV6Address\<close>. \<^verbatim>\<open>None\<close> is the panic of \<^verbatim>\<open>MustParseIP\<close>.
\<close>

fun ipLoop :: "ext \<Rightarrow> string list \<Rightarrow> string \<times> string \<Rightarrow> (string \<times> string) option" where
  "ipLoop x [] (IpV4Address, IpV6Address) = Some (IpV4Address, IpV6Address)"
| "ipLoop x (addr # rest) (IpV4Address, IpV6Address) =
     (case MustParseIP x addr of
        None \<Rightarrow> None
      | Some ip \<Rightarrow>
          if Is4 ip then ipLoop x rest (addr, IpV6Address)
          else ipLoop x rest (IpV4Address, addr))"

text \<open>Lines 504-511: the loop over the requested routes.\<close>

definition routes :: "ext \<Rightarrow> v1_Machine \<Rightarrow> string list" where
  "routes x machine =
     foldl (\<lambda>routes route.
              if isStringInSlice (EnabledRoutes machine) route
              then routes @ [''*'' @ LightGreen x route]
              else routes @ [LightRed x route])
       [] (RequestedRoutes machine)"

text \<open>
  Lines 445-525, the first part of the body of the loop over the machines: the map
  \<^verbatim>\<open>defaultData\<close> of one machine, unless the key does not decode (the function returns
  the error) or the body panics. \<^verbatim>\<open>now1\<close> and \<^verbatim>\<open>now2\<close> are the two readings of the
  clock. The field \<^verbatim>\<open>machine.Namespace\<close> is a pointer, and reading \<^verbatim>\<open>Name\<close> through a
  nil pointer panics.
\<close>

definition defaultData ::
  "ext \<Rightarrow> time \<Rightarrow> time \<Rightarrow> string \<Rightarrow> v1_Machine \<Rightarrow> (string \<times> string) list outcome" where
  "defaultData x now1 now2 currentNamespace machine =
     (case UnmarshalText x (NodePublicKeyEnsurePrefix x (NodeKey machine)) of
        Inl err \<Rightarrow> ReturnedErr err
      | Inr nodeKey \<Rightarrow>
          (case Namespace machine of
             None \<Rightarrow> Panicked
           | Some ns \<Rightarrow>
               (case ipLoop x (IpAddresses machine) ([], []) of
                  None \<Rightarrow> Panicked
                | Some (IpV4Address, IpV6Address) \<Rightarrow>
                    Returned
                      [(''id'', FormatUint10 (unat (Id_m machine))),
                       (''name'', Name machine),
                       (''nodekey'', ShortString x nodeKey),
                       (''namespace'', namespace_cell x currentNamespace ns),
                       (''ip_addresses'', Join [IpV4Address, IpV6Address] '', ''),
                       (''ephemeral'', FormatBool (ephemeral machine)),
                       (''last_seen'', lastSeenTime x (LastSeen machine)),
                       (''online'', online x (timeOf (LastSeen machine)) now1),
                       (''expired'', expired x (timeOf (Expiry machine)) now2),
                       (''tags'', Join (RequestTags machine) '', ''),
                       (''routes'', Join (routes x machine) '', '')])))"

text \<open>Lines 527-536, the second part: the row, one cell appended for each column.\<close>

definition nodeData :: "string list \<Rightarrow> (string \<times> string) list \<Rightarrow> string list" where
  "nodeData withColumns data =
     (if length withColumns > 0
      then foldl (\<lambda>nodeData column. nodeData @ [index data column]) [] withColumns
      else foldl (\<lambda>nodeData column. nodeData @ [index data column]) [] defaultColumns)"

definition machineRow ::
  "ext \<Rightarrow> time \<Rightarrow> time \<Rightarrow> string \<Rightarrow> string list \<Rightarrow> v1_Machine \<Rightarrow> string list outcome" where
  "machineRow x now1 now2 currentNamespace withColumns machine =
     (case defaultData x now1 now2 currentNamespace machine of
        Returned data \<Rightarrow> Returned (nodeData withColumns data)
      | ReturnedErr err \<Rightarrow> ReturnedErr err
      | Panicked \<Rightarrow> Panicked)"

text \<open>
  Lines 444-541: the loop over the machines. \<^verbatim>\<open>clock k\<close> is what the call number
  \<^verbatim>\<open>k\<close> of \<^verbatim>\<open>time.Now()\<close> returns; \<^verbatim>\<open>n\<close> counts the calls made so far.
\<close>

fun machinesLoop ::
  "ext \<Rightarrow> (nat \<Rightarrow> time) \<Rightarrow> string \<Rightarrow> string list \<Rightarrow> nat \<Rightarrow> v1_Machine list
     \<Rightarrow> string list list \<Rightarrow> string list list outcome" where
  "machinesLoop x clock currentNamespace withColumns n [] tableData = Returned tableData"
| "machinesLoop x clock currentNamespace withColumns n (machine # rest) tableData =
     (case machineRow x (clock n) (clock (n + 1)) currentNamespace withColumns machine of
        Returned row \<Rightarrow>
          machinesLoop x clock currentNamespace withColumns (n + 2) rest (tableData @ [row])
      | ReturnedErr err \<Rightarrow> ReturnedErr err
      | Panicked \<Rightarrow> Panicked)"

definition nodesToPtables ::
  "ext \<Rightarrow> (nat \<Rightarrow> time) \<Rightarrow> string \<Rightarrow> string list \<Rightarrow> v1_Machine list
     \<Rightarrow> string list list outcome" where
  "nodesToPtables x clock currentNamespace withColumns machines =
     machinesLoop x clock currentNamespace withColumns 0 machines [tableHeader withColumns]"


declare FormatUint10.simps [simp del]

subsection \<open>The commands\<close>

text \<open>
  What \<^verbatim>\<open>SuccessOutput\<close> is given as its result: a machine, the list of machines, the
  response of the deletion (nil when the call failed) or a literal map.
\<close>

datatype payload =
    Machine_p v1_Machine
  | Machines_p "v1_Machine list"
  | DeleteMachineResponse_p "unit option"
  | Map_p "(string \<times> string) list"

text \<open>
  A run of a command is the sequence of what it does to the outside: the calls to the
  server, the question to the user, the calls to \<^verbatim>\<open>ErrorOutput\<close> and
  \<^verbatim>\<open>SuccessOutput\<close> (defined outside nodes.go; each call is recorded with its three
  arguments), the rendering of the table, and a panic.
\<close>

datatype event =
    RegisterMachine string string
  | ListMachines string
  | GetMachine "64 word"
  | ExpireMachine "64 word"
  | DeleteMachine "64 word"
  | MoveMachine "64 word" string
  | AskOne string
  | ErrorOutput error string string
  | SuccessOutput payload string string
  | Render "string list list"
  | Panic

text \<open>
  What one invocation finds around it: the values of the flags (\<^verbatim>\<open>output\<close> and
  \<^verbatim>\<open>force\<close> are read with their error dropped), the answers of the server to each
  request, the answer of the user to the question (\<^verbatim>\<open>Inl\<close> when \<^verbatim>\<open>survey.AskOne\<close>
  fails), the result of rendering a table, the libraries and the clock.
  \<^verbatim>\<open>getHeadscaleCLIClient\<close> is taken to return a connected client.
\<close>

record env =
  GetString_output :: string
  GetString_namespace :: "error + string"
  GetString_key :: "error + string"
  GetStringSlice_columns :: "error + string list"
  GetUint64_identifier :: "error + 64 word"
  GetBool_force :: bool
  client_RegisterMachine :: "string \<Rightarrow> string \<Rightarrow> error + v1_Machine"
  client_ListMachines :: "string \<Rightarrow> error + v1_Machine list"
  client_GetMachine :: "64 word \<Rightarrow> error + v1_Machine"
  client_ExpireMachine :: "64 word \<Rightarrow> error + v1_Machine"
  client_DeleteMachine :: "64 word \<Rightarrow> error + unit"
  client_MoveMachine :: "64 word \<Rightarrow> string \<Rightarrow> error + v1_Machine"
  survey_AskOne :: "string \<Rightarrow> error + bool"
  table_Render :: "string list list \<Rightarrow> error option"
  libs :: ext
  time_Now :: "nat \<Rightarrow> time"

text \<open>Lines 102-150.\<close>

definition registerNodeCmd :: "env \<Rightarrow> event list" where
  "registerNodeCmd e =
     (let output = GetString_output e in
      case GetString_namespace e of
        Inl err \<Rightarrow> [ErrorOutput err (''Error getting namespace: '' @ errText err) output]
      | Inr namespace \<Rightarrow>
          (case GetString_key e of
             Inl err \<Rightarrow>
               [ErrorOutput err (''Error getting machine key from flag: '' @ errText err) output]
           | Inr machineKey \<Rightarrow>
               RegisterMachine machineKey namespace #
               (case client_RegisterMachine e machineKey namespace of
                  Inl err \<Rightarrow>
                    [ErrorOutput err
                       (''Cannot register machine: '' @ statusMessage err @ [CHR 0x0A]) output]
                | Inr machine \<Rightarrow> [SuccessOutput (Machine_p machine) ''Machine register'' output])))"

text \<open>Lines 152-215.\<close>

definition listNodesCmd :: "env \<Rightarrow> event list" where
  "listNodesCmd e =
     (let output = GetString_output e in
      case GetString_namespace e of
        Inl err \<Rightarrow> [ErrorOutput err (''Error getting namespace: '' @ errText err) output]
      | Inr namespace \<Rightarrow>
          (case GetStringSlice_columns e of
             Inl err \<Rightarrow> [ErrorOutput err (''Error getting columns: '' @ errText err) output]
           | Inr columns \<Rightarrow>
               ListMachines namespace #
               (case client_ListMachines e namespace of
                  Inl err \<Rightarrow>
                    [ErrorOutput err (''Cannot get nodes: '' @ statusMessage err) output]
                | Inr machines \<Rightarrow>
                    if output \<noteq> [] then [SuccessOutput (Machines_p machines) [] output]
                    else
                      (case nodesToPtables (libs e) (time_Now e) namespace columns machines of
                         ReturnedErr err \<Rightarrow>
                           [ErrorOutput err (''Error converting to table: '' @ errText err) output]
                       | Panicked \<Rightarrow> [Panic]
                       | Returned tableData \<Rightarrow>
                           Render tableData #
                           (case table_Render e tableData of
                              Some err \<Rightarrow>
                                [ErrorOutput err
                                   (''Failed to render pterm table: '' @ errText err) output]
                            | None \<Rightarrow> [])))))"

text \<open>Lines 217-260.\<close>

definition expireNodeCmd :: "env \<Rightarrow> event list" where
  "expireNodeCmd e =
     (let output = GetString_output e in
      case GetUint64_identifier e of
        Inl err \<Rightarrow> [ErrorOutput err (''Error converting ID to integer: '' @ errText err) output]
      | Inr identifier \<Rightarrow>
          ExpireMachine identifier #
          (case client_ExpireMachine e identifier of
             Inl err \<Rightarrow>
               [ErrorOutput err
                  (''Cannot expire machine: '' @ statusMessage err @ [CHR 0x0A]) output]
           | Inr machine \<Rightarrow> [SuccessOutput (Machine_p machine) ''Machine expired'' output]))"

text \<open>Lines 321-347 of the deletion: what follows the question.\<close>

definition deleteConfirmed :: "env \<Rightarrow> string \<Rightarrow> 64 word \<Rightarrow> bool \<Rightarrow> bool \<Rightarrow> event list" where
  "deleteConfirmed e output identifier confirm force =
     (if confirm \<or> force then
        DeleteMachine identifier #
        (let result = client_DeleteMachine e identifier in
         if output \<noteq> [] then
           [SuccessOutput
              (DeleteMachineResponse_p (case result of Inl err \<Rightarrow> None | Inr response \<Rightarrow> Some response))
              [] output]
         else
           (case result of
              Inl err \<Rightarrow>
                [ErrorOutput err (''Error deleting node: '' @ statusMessage err) output]
            | Inr response \<Rightarrow>
                [SuccessOutput (Map_p [(''Result'', ''Node deleted'')]) ''Node deleted'' output]))
      else
        [SuccessOutput (Map_p [(''Result'', ''Node not deleted'')]) ''Node not deleted'' output])"

text \<open>Lines 309-314: the question.\<close>

definition prompt :: "v1_Machine \<Rightarrow> string" where
  "prompt machine = ''Do you want to remove the node '' @ Name machine @ ''?''"

text \<open>Lines 262-349. \<^verbatim>\<open>confirm\<close> is false until the user answers.\<close>

definition deleteNodeCmd :: "env \<Rightarrow> event list" where
  "deleteNodeCmd e =
     (let output = GetString_output e in
      case GetUint64_identifier e of
        Inl err \<Rightarrow> [ErrorOutput err (''Error converting ID to integer: '' @ errText err) output]
      | Inr identifier \<Rightarrow>
          GetMachine identifier #
          (case client_GetMachine e identifier of
             Inl err \<Rightarrow>
               [ErrorOutput err (''Error getting node node: '' @ statusMessage err) output]
           | Inr machine \<Rightarrow>
               (let force = GetBool_force e in
                if \<not> force then
                  AskOne (prompt machine) #
                  (case survey_AskOne e (prompt machine) of
                     Inl err \<Rightarrow> []
                   | Inr confirm \<Rightarrow> deleteConfirmed e output identifier confirm force)
                else deleteConfirmed e output identifier False force)))"

text \<open>Lines 351-423.\<close>

definition moveNodeCmd :: "env \<Rightarrow> event list" where
  "moveNodeCmd e =
     (let output = GetString_output e in
      case GetUint64_identifier e of
        Inl err \<Rightarrow> [ErrorOutput err (''Error converting ID to integer: '' @ errText err) output]
      | Inr identifier \<Rightarrow>
          (case GetString_namespace e of
             Inl err \<Rightarrow> [ErrorOutput err (''Error getting namespace: '' @ errText err) output]
           | Inr namespace \<Rightarrow>
               GetMachine identifier #
               (case client_GetMachine e identifier of
                  Inl err \<Rightarrow>
                    [ErrorOutput err (''Error getting node: '' @ statusMessage err) output]
                | Inr machine \<Rightarrow>
                    MoveMachine identifier namespace #
                    (case client_MoveMachine e identifier namespace of
                       Inl err \<Rightarrow>
                         [ErrorOutput err (''Error moving node: '' @ statusMessage err) output]
                     | Inr moved \<Rightarrow>
                         [SuccessOutput (Machine_p moved)
                            ''Node moved to another namespace'' output]))))"

text \<open>The messages of a run: its calls to \<^verbatim>\<open>ErrorOutput\<close> and \<^verbatim>\<open>SuccessOutput\<close>.\<close>

fun isMessage :: "event \<Rightarrow> bool" where
  "isMessage (ErrorOutput err msg output) = True"
| "isMessage (SuccessOutput result msg output) = True"
| "isMessage ev = False"

definition messages :: "event list \<Rightarrow> event list" where
  "messages run = filter isMessage run"


subsection \<open>Notions used to state the properties\<close>

text \<open>The columns of the table: the requested ones, the default ones when none is requested.\<close>

definition columnsUsed :: "string list \<Rightarrow> string list" where
  "columnsUsed withColumns = (if withColumns = [] then defaultColumns else withColumns)"

text \<open>The keys of the closed enumeration of columns.\<close>

definition knownColumn :: "string \<Rightarrow> bool" where
  "knownColumn column = (column \<in> set (map fst availableColumns))"

text \<open>The node key of a machine decodes.\<close>

definition keyDecodes :: "ext \<Rightarrow> v1_Machine \<Rightarrow> bool" where
  "keyDecodes x machine =
     (case UnmarshalText x (NodePublicKeyEnsurePrefix x (NodeKey machine)) of
        Inl err \<Rightarrow> False | Inr nodeKey \<Rightarrow> True)"

text \<open>The error of decoding the node key of a machine, when there is one.\<close>

definition keyError :: "ext \<Rightarrow> v1_Machine \<Rightarrow> error option" where
  "keyError x machine =
     (case UnmarshalText x (NodePublicKeyEnsurePrefix x (NodeKey machine)) of
        Inl err \<Rightarrow> Some err | Inr nodeKey \<Rightarrow> None)"

text \<open>Every address of a machine is an IP literal.\<close>

definition addressesParse :: "ext \<Rightarrow> v1_Machine \<Rightarrow> bool" where
  "addressesParse x machine = list_all (\<lambda>addr. MustParseIP x addr \<noteq> None) (IpAddresses machine)"

text \<open>A machine that a row can be made of.\<close>

definition wellFormed :: "ext \<Rightarrow> v1_Machine \<Rightarrow> bool" where
  "wellFormed x machine =
     (keyDecodes x machine \<and> Namespace machine \<noteq> None \<and> addressesParse x machine)"

text \<open>The addresses of a list that are IPv4 literals, and those that are IPv6 literals.\<close>

definition ipv4s :: "ext \<Rightarrow> string list \<Rightarrow> string list" where
  "ipv4s x addrs = filter (\<lambda>addr. case MustParseIP x addr of None \<Rightarrow> False | Some ip \<Rightarrow> Is4 ip) addrs"

definition ipv6s :: "ext \<Rightarrow> string list \<Rightarrow> string list" where
  "ipv6s x addrs = filter (\<lambda>addr. case MustParseIP x addr of None \<Rightarrow> False | Some ip \<Rightarrow> \<not> Is4 ip) addrs"

text \<open>The last element of a list, a given value when the list is empty.\<close>

definition lastOr :: "'a \<Rightarrow> 'a list \<Rightarrow> 'a" where
  "lastOr d xs = (if xs = [] then d else last xs)"

text \<open>The calls to the server in a run.\<close>

fun isCall :: "event \<Rightarrow> bool" where
  "isCall (RegisterMachine k n) = True"
| "isCall (ListMachines n) = True"
| "isCall (GetMachine i) = True"
| "isCall (ExpireMachine i) = True"
| "isCall (DeleteMachine i) = True"
| "isCall (MoveMachine i n) = True"
| "isCall ev = False"

definition calls :: "event list \<Rightarrow> event list" where
  "calls run = filter isCall run"

subsection \<open>Sample data\<close>

text \<open>
  An instance of the libraries for the examples: the prefix of node keys, one node key
  that decodes (all its bytes zero), three IP literals, one formatted instant, and
  the colours as ANSI escape sequences.
\<close>

definition sample_ext :: ext where
  "sample_ext =
     \<lparr>NodePublicKeyEnsurePrefix =
        (\<lambda>key. if take 8 key = ''nodekey:'' then key else ''nodekey:'' @ key),
      UnmarshalText =
        (\<lambda>text.
           if text = ''nodekey:0000000000000000000000000000000000000000000000000000000000000000''
           then Inr (replicate 32 (CHR 0x00))
           else Inl (GoError ''invalid node key'' ''invalid node key'')),
      ShortString = (\<lambda>nodeKey. ''[AAAAA]''),
      MustParseIP =
        map_of
          [(''100.64.0.1'', IPv4 0x64400001),
           (''100.64.0.2'', IPv4 0x64400002),
           (''fd7a:115c:a1e0::1'', IPv6 0xfd7a115ca1e000000000000000000001)],
      Format = (\<lambda>t. if t = 1650000000000000000 then ''2022-04-15 05:20:00'' else []),
      LightGreen = (\<lambda>s. [CHR 0x1B] @ ''[92m'' @ s @ [CHR 0x1B] @ ''[0m''),
      LightRed = (\<lambda>s. [CHR 0x1B] @ ''[91m'' @ s @ [CHR 0x1B] @ ''[0m''),
      LightMagenta = (\<lambda>s. [CHR 0x1B] @ ''[95m'' @ s @ [CHR 0x1B] @ ''[0m''),
      LightYellow = (\<lambda>s. [CHR 0x1B] @ ''[93m'' @ s @ [CHR 0x1B] @ ''[0m'')\<rparr>"

definition sample_machine :: v1_Machine where
  "sample_machine =
     \<lparr>Id_m = 1,
      Name = ''laptop'',
      NodeKey = ''0000000000000000000000000000000000000000000000000000000000000000'',
      Namespace = Some \<lparr>Name_ns = ''ops''\<rparr>,
      IpAddresses = [''100.64.0.1'', ''fd7a:115c:a1e0::1''],
      PreAuthKey = None,
      LastSeen = Some \<lparr>seconds = 1650000000, nanos = 0\<rparr>,
      Expiry = None,
      RequestTags = [],
      RequestedRoutes = [''10.0.0.0/8'', ''192.168.1.0/24''],
      EnabledRoutes = [''192.168.1.0/24'']\<rparr>"

text \<open>A clock that reads one minute after the sample machine was last seen.\<close>

definition sample_clock :: "nat \<Rightarrow> time" where
  "sample_clock k = 1650000060000000000"

text \<open>
  An invocation with identifier 1 and no \<^verbatim>\<open>force\<close> flag, in table mode, against a server
  that knows the sample machine and accepts every request; the user's answer to the
  question is the first argument.
\<close>

definition sample_env :: "error + bool \<Rightarrow> env" where
  "sample_env answer =
     \<lparr>GetString_output = [],
      GetString_namespace = Inr ''ops'',
      GetString_key = Inr ''0000000000000000000000000000000000000000000000000000000000000000'',
      GetStringSlice_columns = Inr defaultColumns,
      GetUint64_identifier = Inr 1,
      GetBool_force = False,
      client_RegisterMachine = (\<lambda>key namespace. Inr sample_machine),
      client_ListMachines = (\<lambda>namespace. Inr [sample_machine]),
      client_GetMachine = (\<lambda>identifier. Inr sample_machine),
      client_ExpireMachine = (\<lambda>identifier. Inr sample_machine),
      client_DeleteMachine = (\<lambda>identifier. Inr ()),
      client_MoveMachine = (\<lambda>identifier namespace. Inr sample_machine),
      survey_AskOne = (\<lambda>message. answer),
      table_Render = (\<lambda>tableData. None),
      libs = sample_ext,
      time_Now = sample_clock\<rparr>"


section \<open>Properties\<close>

subsection \<open>The loops of nodesToPtables\<close>

text \<open>A loop that appends one element for each element of a list computes a map.\<close>

lemma foldl_snoc_map: "foldl (\<lambda>acc c. acc @ [f c]) acc xs = acc @ map f xs"
  by (induction xs arbitrary: acc) simp_all

lemma tableHeader_map: "tableHeader cols = map (index availableColumns) (columnsUsed cols)"
  by (simp add: tableHeader_def columnsUsed_def foldl_snoc_map)

lemma nodeData_map: "nodeData cols d = map (index d) (columnsUsed cols)"
  by (simp add: nodeData_def columnsUsed_def foldl_snoc_map)

lemma routes_foldl:
  "foldl (\<lambda>routes route. if P route then routes @ [f route] else routes @ [g route]) acc rs
     = acc @ map (\<lambda>route. if P route then f route else g route) rs"
  by (induction rs arbitrary: acc) simp_all

lemma routes_map:
  "routes x m =
     map (\<lambda>route. if route \<in> set (EnabledRoutes m) then ''*'' @ LightGreen x route
                   else LightRed x route) (RequestedRoutes m)"
  unfolding routes_def isStringInSlice_def by (simp only: routes_foldl append_Nil)

lemma ipLoop_char:
  "ipLoop x addrs (a, b) =
     (if list_all (\<lambda>addr. MustParseIP x addr \<noteq> None) addrs
      then Some (lastOr a (ipv4s x addrs), lastOr b (ipv6s x addrs)) else None)"
proof (induction addrs arbitrary: a b)
  case Nil
  show ?case by (simp add: lastOr_def ipv4s_def ipv6s_def)
next
  case (Cons addr rest)
  show ?case
  proof (cases "MustParseIP x addr")
    case None
    then show ?thesis by simp
  next
    case (Some ip)
    then show ?thesis
      using Cons.IH [of addr b] Cons.IH [of a addr]
      by (cases "Is4 ip") (auto simp: lastOr_def ipv4s_def ipv6s_def)
  qed
qed

lemma defaultData_keyError:
  "keyError x m = Some err \<Longrightarrow> defaultData x n1 n2 cur m = ReturnedErr err"
  by (auto simp: keyError_def defaultData_def split: sum.splits)

lemma defaultData_panic:
  "keyDecodes x m \<Longrightarrow> \<not> wellFormed x m \<Longrightarrow> defaultData x n1 n2 cur m = Panicked"
  by (auto simp: keyDecodes_def wellFormed_def addressesParse_def defaultData_def ipLoop_char
           split: sum.splits option.splits)

lemma defaultData_wellFormed:
  "wellFormed x m \<Longrightarrow> \<exists>d. defaultData x n1 n2 cur m = Returned d \<and> map fst d = map fst availableColumns"
  by (auto simp: keyDecodes_def wellFormed_def addressesParse_def defaultData_def ipLoop_char availableColumns_def
           split: sum.splits option.splits)

lemma keyError_keyDecodes: "keyError x m = None \<longleftrightarrow> keyDecodes x m"
  by (simp add: keyError_def keyDecodes_def split: sum.splits)

lemma machineRow_malformed:
  "\<not> wellFormed x m \<Longrightarrow>
     machineRow x n1 n2 cur cols m = (case keyError x m of Some err \<Rightarrow> ReturnedErr err | None \<Rightarrow> Panicked)"
proof (cases "keyError x m")
  case None
  assume bad: "\<not> wellFormed x m"
  from None have "keyDecodes x m" by (simp add: keyError_keyDecodes)
  from defaultData_panic [OF this bad] None show ?thesis
    by (simp add: machineRow_def)
next
  case (Some err)
  from defaultData_keyError [OF Some] Some show ?thesis
    by (simp add: machineRow_def)
qed

lemma machineRow_wellFormed:
  "wellFormed x m \<Longrightarrow>
     machineRow x n1 n2 cur cols m = Returned (map (index (val (defaultData x n1 n2 cur m))) (columnsUsed cols))"
  using defaultData_wellFormed [of x m n1 n2 cur]
  by (auto simp: machineRow_def nodeData_map)

lemma machinesLoop_malformed:
  "find (\<lambda>m. \<not> wellFormed x m) ms = Some m \<Longrightarrow>
     machinesLoop x clock cur cols n ms acc =
       (case keyError x m of Some err \<Rightarrow> ReturnedErr err | None \<Rightarrow> Panicked)"
proof (induction ms arbitrary: n acc)
  case Nil
  then show ?case by simp
next
  case (Cons a ms)
  show ?case
  proof (cases "wellFormed x a")
    case True
    with Cons.prems have "find (\<lambda>m. \<not> wellFormed x m) ms = Some m" by simp
    from Cons.IH [OF this] True show ?thesis
      by (simp add: machineRow_wellFormed)
  next
    case False
    with Cons.prems have "a = m" by simp
    with False show ?thesis
      by (simp add: machineRow_malformed split: option.splits)
  qed
qed

lemma map_upt_Suc_shift: "map f [0..<Suc k] = f 0 # map (\<lambda>j. f (Suc j)) [0..<k]"
  by (simp add: map_upt_Suc del: upt_Suc)

lemma machinesLoop_wellFormed:
  "list_all (wellFormed x) ms \<Longrightarrow>
     machinesLoop x clock cur cols n ms acc =
       Returned (acc @ map (\<lambda>j. map (index (val (defaultData x (clock (n + 2 * j)) (clock (n + 2 * j + 1)) cur (ms ! j))))
                                   (columnsUsed cols)) [0..<length ms])"
proof (induction ms arbitrary: n acc)
  case Nil
  then show ?case by simp
next
  case (Cons a ms)
  then have a: "wellFormed x a" and ms: "list_all (wellFormed x) ms" by simp_all
  show ?case
    by (simp only: machinesLoop.simps machineRow_wellFormed [OF a] outcome.case Cons.IH [OF ms]
          length_Cons map_upt_Suc_shift)
       simp
qed

lemma index_unknown: "c \<notin> set (map fst tbl) \<Longrightarrow> index tbl c = []"
  by (simp add: index_def map_of_eq_None_iff [THEN iffD2])

lemma index_known: "c \<in> set (map fst tbl) \<Longrightarrow> map_of tbl c = Some (index tbl c)"
  by (cases "map_of tbl c") (auto simp: index_def map_of_eq_None_iff)

lemma nodesToPtables_wellFormed:
  "list_all (wellFormed x) ms \<Longrightarrow>
     nodesToPtables x clock cur cols ms =
       Returned (map (index availableColumns) (columnsUsed cols) #
                 map (\<lambda>j. map (index (val (defaultData x (clock (2 * j)) (clock (2 * j + 1)) cur (ms ! j))))
                                (columnsUsed cols)) [0..<length ms])"
  by (simp add: nodesToPtables_def machinesLoop_wellFormed tableHeader_map)

lemma find_malformed:
  "\<not> list_all P ms \<Longrightarrow> \<exists>m. find (\<lambda>m. \<not> P m) ms = Some m \<and> m \<in> set ms \<and> \<not> P m"
  by (induction ms) auto

text \<open>The sample machine is well formed; two variants of it are not.\<close>

lemma sample_machine_wellFormed: "wellFormed sample_ext sample_machine"
  by (simp add: wellFormed_def keyDecodes_def addressesParse_def sample_ext_def sample_machine_def)

lemma sample_machine_bad_key:
  "keyError sample_ext (sample_machine\<lparr>NodeKey := ''zz''\<rparr>)
     = Some (GoError ''invalid node key'' ''invalid node key'')"
  by (simp add: keyError_def sample_ext_def sample_machine_def)

lemma sample_machine_bad_address:
  "keyError sample_ext (sample_machine\<lparr>IpAddresses := [''not-an-ip'']\<rparr>) = None
   \<and> \<not> wellFormed sample_ext (sample_machine\<lparr>IpAddresses := [''not-an-ip'']\<rparr>)"
  by (simp add: keyError_def wellFormed_def addressesParse_def sample_ext_def sample_machine_def)

text \<open>The default columns are columns of the enumeration.\<close>

lemma defaultColumns_known: "c \<in> set defaultColumns \<Longrightarrow> knownColumn c"
  by (auto simp: defaultColumns_def knownColumn_def availableColumns_def)

subsection \<open>The messages of the commands\<close>

text \<open>
  Every run of the registration, of the expiry and of the move ends with exactly one
  message. A run of the deletion does too, except when the question to the user fails:
  then it has none.
\<close>

lemma registerNodeCmd_messages: "length (messages (registerNodeCmd e)) = 1"
  by (simp add: registerNodeCmd_def messages_def Let_def split: sum.splits)

lemma expireNodeCmd_messages: "length (messages (expireNodeCmd e)) = 1"
  by (simp add: expireNodeCmd_def messages_def Let_def split: sum.splits)

lemma moveNodeCmd_messages: "length (messages (moveNodeCmd e)) = 1"
  by (simp add: moveNodeCmd_def messages_def Let_def split: sum.splits)

lemma deleteConfirmed_messages: "length (messages (deleteConfirmed e output i confirm force)) = 1"
  by (simp add: deleteConfirmed_def messages_def Let_def split: sum.splits)

lemma deleteNodeCmd_messages:
  "length (messages (deleteNodeCmd e)) =
     (case GetUint64_identifier e of
        Inl err \<Rightarrow> 1
      | Inr identifier \<Rightarrow>
          (case client_GetMachine e identifier of
             Inl err \<Rightarrow> 1
           | Inr machine \<Rightarrow>
               if \<not> GetBool_force e \<and> isl (survey_AskOne e (prompt machine)) then 0 else 1))"
  using deleteConfirmed_messages [of e]
  by (auto simp: deleteNodeCmd_def messages_def Let_def split: sum.splits)

subsection \<open>A malformed record in the list\<close>

text \<open>
  In table mode, the first record of the list that is not well formed decides the run of
  the list command: the error message of the decoding when its node key does not decode,
  a panic otherwise. No table is rendered.
\<close>

lemma listNodesCmd_malformed:
  assumes "GetString_output e = []"
    and "GetString_namespace e = Inr ns"
    and "GetStringSlice_columns e = Inr cols"
    and "client_ListMachines e ns = Inr ms"
    and "find (\<lambda>m. \<not> wellFormed (libs e) m) ms = Some m"
  shows "nodesToPtables (libs e) (time_Now e) ns cols ms =
           (case keyError (libs e) m of Some err \<Rightarrow> ReturnedErr err | None \<Rightarrow> Panicked)
         \<and> listNodesCmd e =
             [ListMachines ns,
              case keyError (libs e) m of
                Some err \<Rightarrow> ErrorOutput err (''Error converting to table: '' @ errText err) []
              | None \<Rightarrow> Panic]"
proof -
  have t: "nodesToPtables (libs e) (time_Now e) ns cols ms =
             (case keyError (libs e) m of Some err \<Rightarrow> ReturnedErr err | None \<Rightarrow> Panicked)"
    unfolding nodesToPtables_def by (rule machinesLoop_malformed [OF assms(5)])
  show ?thesis
    by (cases "keyError (libs e) m") (simp_all add: t listNodesCmd_def assms(1-4))
qed

section \<open>The claims\<close>

subsection \<open>One message on every failure path\<close>

text \<open>
  C1. Every failure path of every command produces exactly one message; in particular
  the deletion does when the question to the user fails. In the code that path returns
  at once: for an invocation without \<^verbatim>\<open>force\<close> whose question fails, the run is the
  request for the machine and the question, and it has no message.
\<close>

theorem deleteNodeCmd_prompt_error_silent:
  "deleteNodeCmd (sample_env (Inl (GoError ''interrupt'' ''interrupt'')))
     = [GetMachine 1, AskOne ''Do you want to remove the node laptop?'']
   \<and> messages (deleteNodeCmd (sample_env (Inl (GoError ''interrupt'' ''interrupt'')))) = []"
  by (simp add: deleteNodeCmd_def sample_env_def prompt_def sample_machine_def messages_def Let_def)

subsection \<open>Unknown columns\<close>

text \<open>
  C2, as stated: a column key outside the enumeration is rejected with an error before
  any row is built. The code looks the key up in both maps and gets the empty string:
  the table is returned, with an empty header cell and an empty data cell for the key.
\<close>

theorem nodesToPtables_unknown_column_counterexample:
  "nodesToPtables sample_ext sample_clock [] [''bogus'', ''name''] [sample_machine]
     = Returned [[[], ''Names''], [[], ''laptop'']]"
  by (simp add: nodesToPtables_def tableHeader_def machineRow_def defaultData_def nodeData_def
        index_def availableColumns_def sample_ext_def sample_machine_def)

text \<open>
  C2, amended: a column key outside the enumeration is not rejected. The only error that
  \<^verbatim>\<open>nodesToPtables\<close> returns is the error of decoding the node key of one of the
  machines; and for machines that are all well formed it returns a table of the header
  and one row for each machine, every row as long as the list of columns, where the header
  and every data row hold the empty string at the position of each key that is not in
  the enumeration.
\<close>

theorem nodesToPtables_unknown_column:
  "(nodesToPtables x clock cur cols ms = ReturnedErr err
      \<longrightarrow> (\<exists>m\<in>set ms. keyError x m = Some err))
   \<and> (list_all (wellFormed x) ms \<longrightarrow>
        (\<exists>t. nodesToPtables x clock cur cols ms = Returned t
           \<and> length t = Suc (length ms)
           \<and> (\<forall>row\<in>set t. length row = length (columnsUsed cols)
                 \<and> (\<forall>i<length (columnsUsed cols).
                        \<not> knownColumn (columnsUsed cols ! i) \<longrightarrow> row ! i = []))))"
proof (intro conjI impI)
  assume err: "nodesToPtables x clock cur cols ms = ReturnedErr err"
  have "\<not> list_all (wellFormed x) ms"
    using err nodesToPtables_wellFormed [of x ms clock cur cols] by auto
  from find_malformed [OF this] obtain m
    where f: "find (\<lambda>m. \<not> wellFormed x m) ms = Some m" and m: "m \<in> set ms" by blast
  from machinesLoop_malformed [OF f, of clock cur cols 0 "[tableHeader cols]"] err
  have "keyError x m = Some err"
    by (simp add: nodesToPtables_def split: option.splits)
  with m show "\<exists>m\<in>set ms. keyError x m = Some err" by blast
next
  assume wf: "list_all (wellFormed x) ms"
  let ?t = "map (index availableColumns) (columnsUsed cols) #
            map (\<lambda>j. map (index (val (defaultData x (clock (2 * j)) (clock (2 * j + 1)) cur (ms ! j))))
                           (columnsUsed cols)) [0..<length ms]"
  have t: "nodesToPtables x clock cur cols ms = Returned ?t"
    by (rule nodesToPtables_wellFormed [OF wf])
  have rows: "length row = length (columnsUsed cols)
                \<and> (\<forall>i<length (columnsUsed cols).
                       \<not> knownColumn (columnsUsed cols ! i) \<longrightarrow> row ! i = [])"
    if row: "row \<in> set ?t" for row
  proof (cases "row = map (index availableColumns) (columnsUsed cols)")
    case True
    then show ?thesis by (simp add: knownColumn_def index_unknown)
  next
    case False
    with row obtain j where j: "j < length ms"
      and r: "row = map (index (val (defaultData x (clock (2 * j)) (clock (2 * j + 1)) cur (ms ! j))))
                      (columnsUsed cols)"
      by auto
    from wf j have "wellFormed x (ms ! j)" by (simp add: list_all_length)
    from defaultData_wellFormed [OF this, of "clock (2 * j)" "clock (2 * j + 1)" cur]
    have "map fst (val (defaultData x (clock (2 * j)) (clock (2 * j + 1)) cur (ms ! j)))
            = map fst availableColumns" by auto
    then show ?thesis
      unfolding r knownColumn_def by (simp add: index_unknown)
  qed
  show "\<exists>t. nodesToPtables x clock cur cols ms = Returned t
           \<and> length t = Suc (length ms)
           \<and> (\<forall>row\<in>set t. length row = length (columnsUsed cols)
                 \<and> (\<forall>i<length (columnsUsed cols).
                        \<not> knownColumn (columnsUsed cols ! i) \<longrightarrow> row ! i = []))"
    using t rows by (intro exI [of _ ?t]) simp
qed

theorem nodesToPtables_unknown_column_witness:
  "list_all (wellFormed sample_ext) [sample_machine]
   \<and> \<not> knownColumn ''bogus''
   \<and> (\<exists>t. nodesToPtables sample_ext sample_clock [] [''bogus'', ''name''] [sample_machine] = Returned t
          \<and> length t = 2 \<and> (\<forall>row\<in>set t. length row = 2 \<and> row ! 0 = []))
   \<and> (let bad = sample_machine\<lparr>NodeKey := ''zz''\<rparr>; err = GoError ''invalid node key'' ''invalid node key''
      in nodesToPtables sample_ext sample_clock [] [''bogus''] [bad] = ReturnedErr err
         \<and> (\<exists>m\<in>set [bad]. keyError sample_ext m = Some err))"
proof -
  have wf: "list_all (wellFormed sample_ext) [sample_machine]"
    by (simp add: sample_machine_wellFormed)
  have unk: "\<not> knownColumn ''bogus''"
    by (simp add: knownColumn_def availableColumns_def)
  have cu: "columnsUsed [''bogus'', ''name''] = [''bogus'', ''name'']"
    by (simp add: columnsUsed_def)
  from nodesToPtables_unknown_column
         [of sample_ext sample_clock "[]" "[''bogus'', ''name'']" "[sample_machine]",
          THEN conjunct2, THEN mp, OF wf]
  obtain t where t: "nodesToPtables sample_ext sample_clock [] [''bogus'', ''name''] [sample_machine] = Returned t"
    and len: "length t = Suc (length [sample_machine])"
    and rows: "\<forall>row\<in>set t. length row = length (columnsUsed [''bogus'', ''name''])
                 \<and> (\<forall>i<length (columnsUsed [''bogus'', ''name'']).
                        \<not> knownColumn (columnsUsed [''bogus'', ''name''] ! i) \<longrightarrow> row ! i = [])"
    by blast
  from rows unk have "\<forall>row\<in>set t. length row = 2 \<and> row ! 0 = []"
    unfolding cu by auto
  with t len have part1: "\<exists>t. nodesToPtables sample_ext sample_clock [] [''bogus'', ''name''] [sample_machine] = Returned t
          \<and> length t = 2 \<and> (\<forall>row\<in>set t. length row = 2 \<and> row ! 0 = [])"
    by (intro exI [of _ t]) simp
  let ?bad = "sample_machine\<lparr>NodeKey := ''zz''\<rparr>"
  let ?err = "GoError ''invalid node key'' ''invalid node key''"
  have e: "nodesToPtables sample_ext sample_clock [] [''bogus''] [?bad] = ReturnedErr ?err"
    by (simp add: nodesToPtables_def machineRow_def defaultData_keyError [OF sample_machine_bad_key])
  from nodesToPtables_unknown_column
         [of sample_ext sample_clock "[]" "[''bogus'']" "[?bad]" ?err, THEN conjunct1, THEN mp, OF e]
  have "\<exists>m\<in>set [?bad]. keyError sample_ext m = Some ?err" .
  with e wf unk part1 show ?thesis by (simp add: Let_def)
qed

subsection \<open>Addresses\<close>

text \<open>
  C3, as stated: of several addresses of one family the first is kept. The loop
  assigns at every address, so the second of two IPv4 literals replaces the first.
\<close>

theorem ipLoop_first_counterexample:
  "ipLoop sample_ext [''100.64.0.1'', ''100.64.0.2''] ([], []) = Some (''100.64.0.2'', [])
   \<and> ipLoop sample_ext [''100.64.0.1'', ''100.64.0.2''] ([], []) \<noteq> Some (''100.64.0.1'', [])"
  by (simp add: sample_ext_def)

text \<open>
  C3, amended: when every address parses, the loop keeps the last IPv4 literal and the
  last IPv6 literal of the list (the empty string for a family with no address), and
  drops the earlier addresses of the same family.
\<close>

theorem ipLoop_last:
  assumes "list_all (\<lambda>addr. MustParseIP x addr \<noteq> None) addrs"
  shows "ipLoop x addrs ([], []) = Some (lastOr [] (ipv4s x addrs), lastOr [] (ipv6s x addrs))"
  using assms by (simp add: ipLoop_char)

theorem ipLoop_last_witness:
  "list_all (\<lambda>addr. MustParseIP sample_ext addr \<noteq> None)
     [''100.64.0.1'', ''fd7a:115c:a1e0::1'', ''100.64.0.2'']
   \<and> ipLoop sample_ext [''100.64.0.1'', ''fd7a:115c:a1e0::1'', ''100.64.0.2''] ([], [])
       = Some (''100.64.0.2'', ''fd7a:115c:a1e0::1'')"
proof -
  have h: "list_all (\<lambda>addr. MustParseIP sample_ext addr \<noteq> None)
             [''100.64.0.1'', ''fd7a:115c:a1e0::1'', ''100.64.0.2'']"
    by (simp add: sample_ext_def)
  show ?thesis
    using h ipLoop_last [OF h]
    by (simp add: lastOr_def ipv4s_def ipv6s_def sample_ext_def)
qed

subsection \<open>Malformed records\<close>

text \<open>
  C4. In table mode a record that cannot be classified (a node key that does not decode,
  an address that is not an IP literal) makes the command end with an error, never with
  a crash. The code does so for the node key, whose decoding error is returned and
  printed as one message; for the address it calls \<^verbatim>\<open>MustParseIP\<close>, which panics. For
  the sample machine with the one address \<^verbatim>\<open>not-an-ip\<close>, \<^verbatim>\<open>nodesToPtables\<close> panics and
  the run of the command is the request for the machines followed by the panic, with
  no message; for the sample machine with the node key \<^verbatim>\<open>zz\<close> the run ends with the
  error message.
\<close>

theorem listNodesCmd_bad_address_panics:
  "nodesToPtables sample_ext sample_clock ''ops'' defaultColumns
     [sample_machine\<lparr>IpAddresses := [''not-an-ip'']\<rparr>] = Panicked
   \<and> listNodesCmd
       (sample_env (Inr False)
          \<lparr>client_ListMachines := \<lambda>namespace. Inr [sample_machine\<lparr>IpAddresses := [''not-an-ip'']\<rparr>]\<rparr>)
     = [ListMachines ''ops'', Panic]
   \<and> listNodesCmd
       (sample_env (Inr False)
          \<lparr>client_ListMachines := \<lambda>namespace. Inr [sample_machine\<lparr>NodeKey := ''zz''\<rparr>]\<rparr>)
     = [ListMachines ''ops'',
        ErrorOutput (GoError ''invalid node key'' ''invalid node key'')
          ''Error converting to table: invalid node key'' []]"
  by (simp add: listNodesCmd_def sample_env_def nodesToPtables_def machineRow_def defaultData_def
        sample_ext_def sample_machine_def)

subsection \<open>Online\<close>

text \<open>
  C5. The node is shown online iff \<^verbatim>\<open>lastSeen\<close> is present and less than five minutes
  before \<^verbatim>\<open>now\<close>: at a gap of exactly five minutes, and when \<^verbatim>\<open>lastSeen\<close> is absent,
  it is shown offline. An absent \<^verbatim>\<open>lastSeen\<close> is the zero time (year 1) in the code, so
  the clock is assumed to read no earlier than five minutes after the zero time.
\<close>

theorem online_iff:
  assumes "zeroTime + 5 * Minute \<le> now"
  shows "online x (timeOf lastSeen) now =
           (case lastSeen of
              None \<Rightarrow> LightRed x ''offline''
            | Some ts \<Rightarrow>
                if now - AsTime ts < 5 * Minute then LightGreen x ''online''
                else LightRed x ''offline'')"
proof (cases lastSeen)
  case None
  with assms show ?thesis
    by (simp add: online_def timeOf_def After_def Add_def)
next
  case (Some ts)
  have "After (AsTime ts) (Add now (- 5 * Minute)) \<longleftrightarrow> now - AsTime ts < 5 * Minute"
    unfolding After_def Add_def by linarith
  with Some show ?thesis
    by (simp add: online_def timeOf_def)
qed

theorem online_iff_witness:
  "zeroTime + 5 * Minute \<le> 1650000300000000000
   \<and> online sample_ext (timeOf (Some \<lparr>seconds = 1650000000, nanos = 0\<rparr>)) 1650000300000000000
       = LightRed sample_ext ''offline''
   \<and> online sample_ext (timeOf (Some \<lparr>seconds = 1650000000, nanos = 1\<rparr>)) 1650000300000000000
       = LightGreen sample_ext ''online''
   \<and> online sample_ext (timeOf None) 1650000300000000000 = LightRed sample_ext ''offline''"
proof -
  have h: "zeroTime + 5 * Minute \<le> 1650000300000000000"
    by (simp add: zeroTime_def Minute_def)
  show ?thesis
    using h online_iff [OF h, of sample_ext "Some \<lparr>seconds = 1650000000, nanos = 0\<rparr>"]
      online_iff [OF h, of sample_ext "Some \<lparr>seconds = 1650000000, nanos = 1\<rparr>"]
      online_iff [OF h, of sample_ext None]
    by (simp add: AsTime_def Minute_def)
qed

subsection \<open>Expired\<close>

text \<open>
  C6. The node is shown not expired when the expiry is absent or is the zero time, and
  otherwise expired iff the expiry is not after \<^verbatim>\<open>now\<close>; a node whose expiry equals
  \<^verbatim>\<open>now\<close> is expired.
\<close>

theorem expired_iff:
  "expired x (timeOf expiry) now =
     (if expiry = None \<or> timeOf expiry = zeroTime then LightGreen x ''no''
      else if timeOf expiry \<le> now then LightRed x ''yes''
      else LightGreen x ''no'')"
  by (cases expiry) (auto simp: expired_def timeOf_def IsZero_def After_def)

theorem expired_iff_witness:
  "expired sample_ext (timeOf (Some \<lparr>seconds = 1650000000, nanos = 0\<rparr>)) 1650000000000000000
     = LightRed sample_ext ''yes''
   \<and> expired sample_ext (timeOf (Some \<lparr>seconds = - 62135596800, nanos = 0\<rparr>)) 1650000000000000000
     = LightGreen sample_ext ''no''
   \<and> expired sample_ext (timeOf None) 1650000000000000000 = LightGreen sample_ext ''no''"
  using expired_iff [of sample_ext "Some \<lparr>seconds = 1650000000, nanos = 0\<rparr>" 1650000000000000000]
    expired_iff [of sample_ext "Some \<lparr>seconds = - 62135596800, nanos = 0\<rparr>" 1650000000000000000]
    expired_iff [of sample_ext None 1650000000000000000]
  by (simp add: timeOf_def AsTime_def zeroTime_def)

subsection \<open>Routes\<close>

text \<open>
  C7. The routes of a machine are one entry for each requested route, in the order of
  the requested routes; the entry is marked approved iff the route is among the enabled
  routes, whatever their order and number. An enabled route that was not requested adds
  no entry.
\<close>

theorem routes_approval:
  "length (routes x m) = length (RequestedRoutes m)
   \<and> (\<forall>i<length (RequestedRoutes m).
         routes x m ! i =
           (if RequestedRoutes m ! i \<in> set (EnabledRoutes m)
            then ''*'' @ LightGreen x (RequestedRoutes m ! i)
            else LightRed x (RequestedRoutes m ! i)))
   \<and> (RequestedRoutes m' = RequestedRoutes m \<and> set (EnabledRoutes m') = set (EnabledRoutes m)
        \<longrightarrow> routes x m' = routes x m)"
  by (simp add: routes_map)

theorem routes_approval_witness:
  "length (routes sample_ext sample_machine) = 2
   \<and> routes sample_ext sample_machine ! 0 = LightRed sample_ext ''10.0.0.0/8''
   \<and> routes sample_ext sample_machine ! 1 = ''*'' @ LightGreen sample_ext ''192.168.1.0/24''
   \<and> routes sample_ext (sample_machine\<lparr>EnabledRoutes := [''172.16.0.0/12'', ''192.168.1.0/24'', ''192.168.1.0/24'']\<rparr>) ! 1
        = ''*'' @ LightGreen sample_ext ''192.168.1.0/24''
   \<and> length (routes sample_ext (sample_machine\<lparr>EnabledRoutes := [''172.16.0.0/12'', ''192.168.1.0/24'', ''192.168.1.0/24'']\<rparr>)) = 2"
  using routes_approval [of sample_ext sample_machine sample_machine]
    routes_approval [of sample_ext "sample_machine\<lparr>EnabledRoutes := [''172.16.0.0/12'', ''192.168.1.0/24'', ''192.168.1.0/24'']\<rparr>" sample_machine]
  by (simp add: sample_machine_def)

subsection \<open>A declined deletion\<close>

text \<open>
  C8. When the deletion is invoked without \<^verbatim>\<open>force\<close> and the user declines, the run
  ends with the success message "Node not deleted" and has no deletion call.
\<close>

theorem deleteNodeCmd_declined:
  assumes "GetUint64_identifier e = Inr identifier"
    and "client_GetMachine e identifier = Inr machine"
    and "\<not> GetBool_force e"
    and "survey_AskOne e (prompt machine) = Inr False"
  shows "deleteNodeCmd e =
           [GetMachine identifier, AskOne (prompt machine),
            SuccessOutput (Map_p [(''Result'', ''Node not deleted'')]) ''Node not deleted''
              (GetString_output e)]
         \<and> DeleteMachine i \<notin> set (deleteNodeCmd e)"
  using assms by (simp add: deleteNodeCmd_def deleteConfirmed_def Let_def)

theorem deleteNodeCmd_declined_witness:
  "GetUint64_identifier (sample_env (Inr False)) = Inr 1
   \<and> client_GetMachine (sample_env (Inr False)) 1 = Inr sample_machine
   \<and> \<not> GetBool_force (sample_env (Inr False))
   \<and> survey_AskOne (sample_env (Inr False)) (prompt sample_machine) = Inr False
   \<and> deleteNodeCmd (sample_env (Inr False)) =
       [GetMachine 1, AskOne ''Do you want to remove the node laptop?'',
        SuccessOutput (Map_p [(''Result'', ''Node not deleted'')]) ''Node not deleted'' []]
   \<and> DeleteMachine 1 \<notin> set (deleteNodeCmd (sample_env (Inr False)))"
proof -
  have h1: "GetUint64_identifier (sample_env (Inr False)) = Inr 1"
    and h2: "client_GetMachine (sample_env (Inr False)) 1 = Inr sample_machine"
    and h3: "\<not> GetBool_force (sample_env (Inr False))"
    and h4: "survey_AskOne (sample_env (Inr False)) (prompt sample_machine) = Inr False"
    by (simp_all add: sample_env_def)
  have p: "prompt sample_machine = ''Do you want to remove the node laptop?''"
    by (simp add: prompt_def sample_machine_def)
  have o: "GetString_output (sample_env (Inr False)) = []"
    by (simp add: sample_env_def)
  from deleteNodeCmd_declined [OF h1 h2 h3 h4, of 1] h1 h2 h3 h4 show ?thesis
    by (simp add: p o)
qed

subsection \<open>The move asks for the machine first\<close>

text \<open>
  C9. A run of the move whose flags are read starts with the request for the machine;
  when that request fails the run is the request and one error message, with no move
  call. In every run, a move call comes directly after a successful request for the same
  machine, the first event of the run.
\<close>

theorem moveNodeCmd_get_first:
  "(GetUint64_identifier e = Inr identifier \<and> GetString_namespace e = Inr namespace
      \<longrightarrow> (\<exists>rest. moveNodeCmd e = GetMachine identifier # rest)
          \<and> (\<forall>err. client_GetMachine e identifier = Inl err
                 \<longrightarrow> moveNodeCmd e =
                       [GetMachine identifier,
                        ErrorOutput err (''Error getting node: '' @ statusMessage err)
                          (GetString_output e)]))
   \<and> (MoveMachine i n \<in> set (moveNodeCmd e)
        \<longrightarrow> (\<exists>machine rest. client_GetMachine e i = Inr machine
               \<and> moveNodeCmd e = GetMachine i # MoveMachine i n # rest))
   \<and> (GetUint64_identifier e = Inr identifier \<and> client_GetMachine e identifier = Inl err
        \<longrightarrow> MoveMachine i n \<notin> set (moveNodeCmd e))"
  by (auto simp: moveNodeCmd_def Let_def split: sum.splits)

theorem moveNodeCmd_get_first_witness:
  "(let e = sample_env (Inr False)\<lparr>client_GetMachine := \<lambda>identifier. Inl (GoError ''rpc error'' ''machine not found'')\<rparr>
    in GetUint64_identifier e = Inr 1 \<and> GetString_namespace e = Inr ''ops''
       \<and> client_GetMachine e 1 = Inl (GoError ''rpc error'' ''machine not found'')
       \<and> moveNodeCmd e =
           [GetMachine 1,
            ErrorOutput (GoError ''rpc error'' ''machine not found'')
              ''Error getting node: machine not found'' []]
       \<and> MoveMachine 1 ''ops'' \<notin> set (moveNodeCmd e))
   \<and> (let e = sample_env (Inr False)
      in MoveMachine 1 ''ops'' \<in> set (moveNodeCmd e)
         \<and> (\<exists>rest. moveNodeCmd e = GetMachine 1 # MoveMachine 1 ''ops'' # rest))"
proof -
  let ?err = "GoError ''rpc error'' ''machine not found''"
  let ?e = "sample_env (Inr False)\<lparr>client_GetMachine := \<lambda>identifier. Inl ?err\<rparr>"
  let ?ok = "sample_env (Inr False)"
  have h: "GetUint64_identifier ?e = Inr 1 \<and> GetString_namespace ?e = Inr ''ops''"
    and g: "client_GetMachine ?e 1 = Inl ?err"
    and o: "GetString_output ?e = []"
    by (simp_all add: sample_env_def)
  from moveNodeCmd_get_first [of ?e 1 "''ops''" 1 "''ops''" ?err] h g
  have run: "moveNodeCmd ?e =
               [GetMachine 1, ErrorOutput ?err (''Error getting node: '' @ statusMessage ?err)
                                (GetString_output ?e)]"
    and no: "MoveMachine 1 ''ops'' \<notin> set (moveNodeCmd ?e)"
    by blast+
  have m: "MoveMachine 1 ''ops'' \<in> set (moveNodeCmd ?ok)"
    by (simp add: moveNodeCmd_def sample_env_def)
  from moveNodeCmd_get_first [of ?ok 1 "''ops''" 1 "''ops''" ?err] m
  have ok: "\<exists>rest. moveNodeCmd ?ok = GetMachine 1 # MoveMachine 1 ''ops'' # rest"
    by blast
  from h g run no m ok show ?thesis
    by (simp add: o Let_def)
qed

subsection \<open>The order of the columns\<close>

text \<open>
  C10. For machines that are all well formed and requested columns that are all keys of
  the enumeration, \<^verbatim>\<open>nodesToPtables\<close> returns the header followed by one row for each
  machine, in the order of the machines; the header and every row are as long as the list
  of columns; the cell at position \<^verbatim>\<open>i\<close> of the header is the label of column \<^verbatim>\<open>i\<close> of
  the list, and the cell at position \<^verbatim>\<open>i\<close> of the row of a machine is the value that
  \<^verbatim>\<open>defaultData\<close> of that machine has for column \<^verbatim>\<open>i\<close> of the list. The list of columns
  is the requested one when it is not empty; for the empty request the header is the
  fixed header of nine columns.
\<close>

theorem nodesToPtables_columns:
  assumes "list_all (wellFormed x) ms"
    and "list_all knownColumn cols"
  shows "\<exists>t. nodesToPtables x clock cur cols ms = Returned t
           \<and> length t = Suc (length ms)
           \<and> (\<forall>row\<in>set t. length row = length (columnsUsed cols))
           \<and> (\<forall>i<length (columnsUsed cols).
                 map_of availableColumns (columnsUsed cols ! i) = Some (t ! 0 ! i))
           \<and> (\<forall>j<length ms. \<exists>data.
                 defaultData x (clock (2 * j)) (clock (2 * j + 1)) cur (ms ! j) = Returned data
                 \<and> (\<forall>i<length (columnsUsed cols).
                       map_of data (columnsUsed cols ! i) = Some (t ! Suc j ! i)))
           \<and> (cols \<noteq> [] \<longrightarrow> columnsUsed cols = cols)
           \<and> (cols = [] \<longrightarrow>
                 t ! 0 = [''ID'', ''Names'', ''NodeKey'', ''Namespace'', ''IP addresses'',
                          ''Ephemeral'', ''Last seen'', ''Online'', ''Expired''])"
proof -
  let ?cs = "columnsUsed cols"
  let ?d = "\<lambda>j. val (defaultData x (clock (2 * j)) (clock (2 * j + 1)) cur (ms ! j))"
  let ?t = "map (index availableColumns) ?cs # map (\<lambda>j. map (index (?d j)) ?cs) [0..<length ms]"
  have t: "nodesToPtables x clock cur cols ms = Returned ?t"
    by (rule nodesToPtables_wellFormed [OF assms(1)])
  have known: "knownColumn (?cs ! i)" if "i < length ?cs" for i
  proof (cases "cols = []")
    case True
    with that show ?thesis by (simp add: columnsUsed_def defaultColumns_known)
  next
    case False
    with that assms(2) show ?thesis by (simp add: columnsUsed_def list_all_length)
  qed
  have len: "length ?t = Suc (length ms)" by simp
  have rows: "\<forall>row\<in>set ?t. length row = length ?cs" by auto
  have header: "\<forall>i<length ?cs. map_of availableColumns (?cs ! i) = Some (?t ! 0 ! i)"
    using known by (simp add: knownColumn_def index_known)
  have data: "\<exists>data. defaultData x (clock (2 * j)) (clock (2 * j + 1)) cur (ms ! j) = Returned data
                \<and> (\<forall>i<length ?cs. map_of data (?cs ! i) = Some (?t ! Suc j ! i))"
    if j: "j < length ms" for j
  proof -
    from assms(1) j have "wellFormed x (ms ! j)" by (simp add: list_all_length)
    from defaultData_wellFormed [OF this, of "clock (2 * j)" "clock (2 * j + 1)" cur]
    obtain d where d: "defaultData x (clock (2 * j)) (clock (2 * j + 1)) cur (ms ! j) = Returned d"
      and keys: "map fst d = map fst availableColumns" by blast
    have "map_of d (?cs ! i) = Some (?t ! Suc j ! i)" if i: "i < length ?cs" for i
    proof -
      from known [OF i] keys have "?cs ! i \<in> set (map fst d)" by (simp add: knownColumn_def)
      from index_known [OF this] i j d show ?thesis by simp
    qed
    with d show ?thesis by blast
  qed
  have nonempty: "cols \<noteq> [] \<longrightarrow> ?cs = cols" by (simp add: columnsUsed_def)
  have dflt: "cols = [] \<longrightarrow>
                 ?t ! 0 = [''ID'', ''Names'', ''NodeKey'', ''Namespace'', ''IP addresses'',
                          ''Ephemeral'', ''Last seen'', ''Online'', ''Expired'']"
    by (simp add: columnsUsed_def defaultColumns_def index_def availableColumns_def)
  show ?thesis
    apply (rule exI [of _ ?t])
    apply (intro conjI)
          apply (rule t)
         apply (rule len)
        apply (rule rows)
       apply (rule header)
      using data apply blast
     apply (rule nonempty)
    apply (rule dflt)
    done
qed


theorem nodesToPtables_columns_witness:
  "list_all (wellFormed sample_ext) [sample_machine, sample_machine\<lparr>Name := ''desk''\<rparr>]
   \<and> list_all knownColumn [''name'', ''id'']
   \<and> list_all knownColumn []
   \<and> (\<exists>t. nodesToPtables sample_ext sample_clock [] [''name'', ''id'']
              [sample_machine, sample_machine\<lparr>Name := ''desk''\<rparr>] = Returned t
          \<and> length t = 3 \<and> (\<forall>row\<in>set t. length row = 2)
          \<and> t ! 0 ! 0 = ''Names'' \<and> t ! 0 ! 1 = ''ID''
          \<and> t ! 1 ! 0 = ''laptop'' \<and> t ! 1 ! 1 = ''1''
          \<and> t ! 2 ! 0 = ''desk'' \<and> t ! 2 ! 1 = ''1'')
   \<and> (\<exists>t. nodesToPtables sample_ext sample_clock [] []
              [sample_machine, sample_machine\<lparr>Name := ''desk''\<rparr>] = Returned t
          \<and> length t = 3 \<and> (\<forall>row\<in>set t. length row = 9)
          \<and> t ! 0 = [''ID'', ''Names'', ''NodeKey'', ''Namespace'', ''IP addresses'',
                      ''Ephemeral'', ''Last seen'', ''Online'', ''Expired''])"
proof -
  let ?ms = "[sample_machine, sample_machine\<lparr>Name := ''desk''\<rparr>]"
  have wf: "list_all (wellFormed sample_ext) ?ms"
    using sample_machine_wellFormed
    by (simp add: wellFormed_def keyDecodes_def addressesParse_def)
  have kn: "list_all knownColumn [''name'', ''id'']"
    by (simp add: knownColumn_def availableColumns_def)
  have kn0: "list_all knownColumn []" by simp
  have cu: "columnsUsed [''name'', ''id''] = [''name'', ''id'']" by (simp add: columnsUsed_def)
  have one: "FormatUint10 (Suc 0) = ''1''"
    by (simp add: FormatUint10.simps digit_def)
  from nodesToPtables_columns [OF wf kn, of sample_clock "[]"]
  obtain t where t: "nodesToPtables sample_ext sample_clock [] [''name'', ''id''] ?ms = Returned t"
    and len: "length t = Suc (length ?ms)"
    and rows: "\<forall>row\<in>set t. length row = length (columnsUsed [''name'', ''id''])"
    and header: "\<forall>i<length (columnsUsed [''name'', ''id'']).
                   map_of availableColumns (columnsUsed [''name'', ''id''] ! i) = Some (t ! 0 ! i)"
    and data: "\<forall>j<length ?ms. \<exists>data.
                 defaultData sample_ext (sample_clock (2 * j)) (sample_clock (2 * j + 1)) [] (?ms ! j)
                   = Returned data
                 \<and> (\<forall>i<length (columnsUsed [''name'', ''id'']).
                       map_of data (columnsUsed [''name'', ''id''] ! i) = Some (t ! Suc j ! i))"
    by blast
  from header [rule_format, of 0] header [rule_format, of 1]
  have h: "t ! 0 ! 0 = ''Names'' \<and> t ! 0 ! 1 = ''ID''"
    by (simp add: cu availableColumns_def)
  have "\<exists>data.
          defaultData sample_ext (sample_clock (2 * 0)) (sample_clock (2 * 0 + 1)) [] (?ms ! 0)
            = Returned data
          \<and> (\<forall>i<length (columnsUsed [''name'', ''id'']).
                map_of data (columnsUsed [''name'', ''id''] ! i) = Some (t ! Suc 0 ! i))"
    by (rule data [rule_format]) simp
  then obtain dat0
    where e0: "defaultData sample_ext (sample_clock (2 * 0)) (sample_clock (2 * 0 + 1)) [] (?ms ! 0)
                 = Returned dat0"
      and c0: "\<forall>i<length (columnsUsed [''name'', ''id'']).
                 map_of dat0 (columnsUsed [''name'', ''id''] ! i) = Some (t ! Suc 0 ! i)"
    by blast
  from e0 have m0: "map_of dat0 ''name'' = Some ''laptop'' \<and> map_of dat0 ''id'' = Some ''1''"
    by (auto simp: defaultData_def sample_ext_def sample_machine_def one)
  from c0 [rule_format, of 0] c0 [rule_format, of 1] m0
  have d0: "t ! 1 ! 0 = ''laptop'' \<and> t ! 1 ! 1 = ''1''"
    by (simp add: cu)
  have "\<exists>data.
          defaultData sample_ext (sample_clock (2 * 1)) (sample_clock (2 * 1 + 1)) [] (?ms ! 1)
            = Returned data
          \<and> (\<forall>i<length (columnsUsed [''name'', ''id'']).
                map_of data (columnsUsed [''name'', ''id''] ! i) = Some (t ! Suc 1 ! i))"
    by (rule data [rule_format]) simp
  then obtain dat1
    where e1: "defaultData sample_ext (sample_clock (2 * 1)) (sample_clock (2 * 1 + 1)) [] (?ms ! 1)
                 = Returned dat1"
      and c1: "\<forall>i<length (columnsUsed [''name'', ''id'']).
                 map_of dat1 (columnsUsed [''name'', ''id''] ! i) = Some (t ! Suc 1 ! i)"
    by blast
  from e1 have m1: "map_of dat1 ''name'' = Some ''desk'' \<and> map_of dat1 ''id'' = Some ''1''"
    by (auto simp: defaultData_def sample_ext_def sample_machine_def one)
  from c1 [rule_format, of 0] c1 [rule_format, of 1] m1
  have d1: "t ! 2 ! 0 = ''desk'' \<and> t ! 2 ! 1 = ''1''"
    by (simp add: cu numeral_2_eq_2)
  from t len rows h d0 d1
  have first: "\<exists>t. nodesToPtables sample_ext sample_clock [] [''name'', ''id''] ?ms = Returned t
          \<and> length t = 3 \<and> (\<forall>row\<in>set t. length row = 2)
          \<and> t ! 0 ! 0 = ''Names'' \<and> t ! 0 ! 1 = ''ID''
          \<and> t ! 1 ! 0 = ''laptop'' \<and> t ! 1 ! 1 = ''1''
          \<and> t ! 2 ! 0 = ''desk'' \<and> t ! 2 ! 1 = ''1''"
    by (intro exI [of _ t]) (simp add: cu)
  from nodesToPtables_columns [OF wf kn0, of sample_clock "[]"]
  obtain u where u: "nodesToPtables sample_ext sample_clock [] [] ?ms = Returned u"
    and ulen: "length u = Suc (length ?ms)"
    and urows: "\<forall>row\<in>set u. length row = length (columnsUsed [])"
    and uhead: "u ! 0 = [''ID'', ''Names'', ''NodeKey'', ''Namespace'', ''IP addresses'',
                         ''Ephemeral'', ''Last seen'', ''Online'', ''Expired'']"
    by blast
  from u ulen urows uhead
  have second: "\<exists>t. nodesToPtables sample_ext sample_clock [] [] ?ms = Returned t
          \<and> length t = 3 \<and> (\<forall>row\<in>set t. length row = 9)
          \<and> t ! 0 = [''ID'', ''Names'', ''NodeKey'', ''Namespace'', ''IP addresses'',
                      ''Ephemeral'', ''Last seen'', ''Online'', ''Expired'']"
    by (intro exI [of _ u]) (simp add: columnsUsed_def defaultColumns_def)
  from wf kn kn0 first second show ?thesis by (intro conjI)
qed

end
